theory Spec2Isabelle
  imports Complex_Main "HOL-Library.AList" "HOL-Library.Char_ord" "HOL-Library.List_Lexorder"
    "HOL-Library.Multiset"
begin

section \<open>Python values and dictionaries\<close>

text \<open>
  The services and the record store of the backend pass loosely typed records around:
  Python dictionaries from field names to JSON values. A value is \<open>None\<close>, a boolean,
  an integer or a string; a dictionary is an association list in insertion order, read with
  \<open>map_of\<close> and written with \<open>AList.update\<close> (which replaces a present key in place
  and appends an absent one, as a Python dictionary does). Float-valued and nested fields
  are not part of this value universe.
\<close>

datatype pyval = PNone | PBool bool | PInt int | PStr string

type_synonym pydict = "(string \<times> pyval) list"

datatype error =
    ValidationError string
  | NotFoundError string
  | ConflictError string
  | ServiceError string
  | KeyError string
  | TypeError
  | ValueError
  | AttributeError
  | Exception string

text \<open>Python's \<open>==\<close>: a boolean is the integer 0 or 1; values of unrelated types differ.\<close>

fun num_of :: "pyval \<Rightarrow> int option" where
  "num_of (PInt i) = Some i"
| "num_of (PBool b) = Some (if b then 1 else 0)"
| "num_of _ = None"

fun py_eq :: "pyval \<Rightarrow> pyval \<Rightarrow> bool" where
  "py_eq PNone PNone = True"
| "py_eq (PStr s) (PStr t) = (s = t)"
| "py_eq a b = (case (num_of a, num_of b) of (Some i, Some j) \<Rightarrow> i = j | _ \<Rightarrow> False)"

text \<open>Truthiness, as \<open>if x\<close> and \<open>not x\<close> test it.\<close>

fun truthy :: "pyval \<Rightarrow> bool" where
  "truthy PNone = False"
| "truthy (PBool b) = b"
| "truthy (PInt i) = (i \<noteq> 0)"
| "truthy (PStr s) = (s \<noteq> [])"

text \<open>\<open>d.get(k)\<close> is \<open>None\<close> for an absent key; \<open>d.get(k, default)\<close> the default.\<close>

definition get_or :: "pydict \<Rightarrow> string \<Rightarrow> pyval \<Rightarrow> pyval" where
  "get_or d k dflt = (case map_of d k of None \<Rightarrow> dflt | Some v \<Rightarrow> v)"

definition get :: "pydict \<Rightarrow> string \<Rightarrow> pyval" where
  "get d k = get_or d k PNone"

text \<open>\<open>d[k]\<close> raises \<open>KeyError\<close> for an absent key.\<close>

definition subscript :: "pydict \<Rightarrow> string \<Rightarrow> error + pyval" where
  "subscript d k = (case map_of d k of None \<Rightarrow> Inl (KeyError k) | Some v \<Rightarrow> Inr v)"

text \<open>\<open>d.update(u)\<close>, also the meaning of \<open>{**d, **u}\<close>: the pairs of \<open>u\<close> are
  written into \<open>d\<close> one after the other.\<close>

definition dict_update :: "pydict \<Rightarrow> pydict \<Rightarrow> pydict" where
  "dict_update d u = foldl (\<lambda>acc kv. AList.update (fst kv) (snd kv) acc) d u"

subsection \<open>\<open>str()\<close> and \<open>int()\<close>\<close>

definition digit_char :: "nat \<Rightarrow> char" where
  "digit_char n = ''0123456789'' ! (n mod 10)"

fun digits_of :: "nat \<Rightarrow> string" where
  "digits_of n =
     (if n < 10 then [digit_char n]
      else digits_of (n div 10) @ [digit_char (n mod 10)])"

declare digits_of.simps [simp del]

definition str_of_int :: "int \<Rightarrow> string" where
  "str_of_int i = (if i < 0 then CHR ''-'' # digits_of (nat (- i)) else digits_of (nat i))"

fun py_str :: "pyval \<Rightarrow> string" where
  "py_str PNone = ''None''"
| "py_str (PBool b) = (if b then ''True'' else ''False'')"
| "py_str (PInt i) = str_of_int i"
| "py_str (PStr s) = s"

definition is_space :: "char \<Rightarrow> bool" where
  "is_space c = (c \<in> set [CHR '' '', CHR 0x09, CHR 0x0A, CHR 0x0B, CHR 0x0C, CHR 0x0D,
                           CHR 0x1C, CHR 0x1D, CHR 0x1E, CHR 0x1F])"

definition strip :: "string \<Rightarrow> string" where
  "strip s = rev (dropWhile is_space (rev (dropWhile is_space s)))"

definition is_digit :: "char \<Rightarrow> bool" where
  "is_digit c = (48 \<le> (of_char c :: nat) \<and> (of_char c :: nat) \<le> 57)"

definition digit_val :: "char \<Rightarrow> nat" where
  "digit_val c = (of_char c :: nat) - 48"

text \<open>Decimal digits, where single underscores may separate digit groups (\<open>1_000\<close>).
  The flag tells whether the previous character was a digit.\<close>

fun parse_digits :: "bool \<Rightarrow> nat \<Rightarrow> string \<Rightarrow> nat option" where
  "parse_digits prev acc [] = (if prev then Some acc else None)"
| "parse_digits prev acc (c # cs) =
     (if is_digit c then parse_digits True (acc * 10 + digit_val c) cs
      else if c = CHR ''_'' \<and> prev then parse_digits False acc cs
      else None)"

definition int_of_str :: "string \<Rightarrow> int option" where
  "int_of_str s =
     (case strip s of
        [] \<Rightarrow> None
      | c # cs \<Rightarrow>
          if c = CHR ''-'' then map_option (\<lambda>n. - int n) (parse_digits False 0 cs)
          else if c = CHR ''+'' then map_option int (parse_digits False 0 cs)
          else map_option int (parse_digits False 0 (c # cs)))"

fun py_int :: "pyval \<Rightarrow> error + int" where
  "py_int (PInt i) = Inr i"
| "py_int (PBool b) = Inr (if b then 1 else 0)"
| "py_int (PStr s) = (case int_of_str s of None \<Rightarrow> Inl ValueError | Some i \<Rightarrow> Inr i)"
| "py_int PNone = Inl TypeError"

section \<open>The record store (\<open>utils/data_manager.py\<close>)\<close>

text \<open>
  A \<open>DataManager\<close> owns a directory of JSON files, one per collection; every
  operation loads the whole file and writes the whole file back. The disk maps a domain
  directory and a file name to the list of records stored there (a file that does not
  exist loads as the empty list), and \<open>writable\<close> tells whether \<open>save\<close>
  succeeds. Timestamps (\<open>datetime.now().isoformat()\<close>) are an argument \<open>now\<close>.
  A call that raises gives the error alone: where a function has written to the disk before
  it raises, the model does not tell the state of the disk after the failure.
\<close>

datatype domain = Root | Reviews | Users | Properties | Bookings | Communications | Payments

record disk =
  files :: "domain \<Rightarrow> string \<Rightarrow> pydict list"
  writable :: bool

definition endswith :: "string \<Rightarrow> string \<Rightarrow> bool" where
  "endswith s suffix = (length suffix \<le> length s \<and> drop (length s - length suffix) s = suffix)"

definition get_file_path :: "string \<Rightarrow> string" where
  "get_file_path file_name = (if \<not> endswith file_name ''.json'' then file_name @ ''.json'' else file_name)"

definition load :: "disk \<Rightarrow> domain \<Rightarrow> string \<Rightarrow> pydict list" where
  "load d dm file_name = files d dm (get_file_path file_name)"

text \<open>\<open>save\<close> returns whether the write succeeded, with the disk after it.\<close>

definition save :: "disk \<Rightarrow> domain \<Rightarrow> string \<Rightarrow> pydict list \<Rightarrow> bool \<times> disk" where
  "save d dm file_name data =
     (if writable d
      then (True, d\<lparr>files := (files d)(dm := (files d dm)(get_file_path file_name := data))\<rparr>)
      else (False, d))"

definition find_by_id :: "disk \<Rightarrow> domain \<Rightarrow> string \<Rightarrow> pyval \<Rightarrow> pydict option" where
  "find_by_id d dm file_name item_id =
     find (\<lambda>item. py_str (get item ''id'') = py_str item_id) (load d dm file_name)"

definition find_by_field :: "disk \<Rightarrow> domain \<Rightarrow> string \<Rightarrow> string \<Rightarrow> pyval \<Rightarrow> pydict list" where
  "find_by_field d dm file_name field v =
     filter (\<lambda>item. py_eq (get item field) v) (load d dm file_name)"

text \<open>\<open>max(int(item.get('id', 0)) for item in data)\<close>: the first conversion that
  raises ends the scan.\<close>

fun int_ids :: "pydict list \<Rightarrow> error + int list" where
  "int_ids [] = Inr []"
| "int_ids (item # items) =
     (case py_int (get_or item ''id'' (PInt 0)) of
        Inl e \<Rightarrow> Inl e
      | Inr i \<Rightarrow> (case int_ids items of Inl e \<Rightarrow> Inl e | Inr is \<Rightarrow> Inr (i # is)))"

definition max_list :: "int list \<Rightarrow> int" where
  "max_list xs = foldl max (hd xs) (tl xs)"

definition new_id :: "pydict list \<Rightarrow> error + int" where
  "new_id data =
     (if data \<noteq> []
      then (case int_ids data of Inl e \<Rightarrow> Inl e | Inr is \<Rightarrow> Inr (max_list is + 1))
      else Inr 1)"

definition create :: "disk \<Rightarrow> domain \<Rightarrow> string \<Rightarrow> pydict \<Rightarrow> string \<Rightarrow> error + (disk \<times> pydict)" where
  "create d dm file_name new_item now =
     (let data = load d dm file_name in
      case new_id data of
        Inl e \<Rightarrow> Inl e
      | Inr n \<Rightarrow>
          let created_item =
                dict_update (dict_update [(''id'', PInt n)] new_item)
                  [(''created_at'', PStr now), (''updated_at'', PStr now)];
              (ok, d') = save d dm file_name (data @ [created_item])
          in if ok then Inr (d', created_item)
             else Inl (Exception (''Failed to save new item to '' @ file_name)))"

text \<open>\<open>update\<close> changes the first record whose id matches; it returns \<open>None\<close>
  when there is none.\<close>

fun update_first :: "pyval \<Rightarrow> pydict \<Rightarrow> string \<Rightarrow> pydict list \<Rightarrow> (pydict list \<times> pydict) option" where
  "update_first item_id updates now [] = None"
| "update_first item_id updates now (item # items) =
     (if py_str (get item ''id'') = py_str item_id
      then (let item' = AList.update ''updated_at'' (PStr now) (dict_update item updates)
            in Some (item' # items, item'))
      else (case update_first item_id updates now items of
              None \<Rightarrow> None
            | Some (items', item') \<Rightarrow> Some (item # items', item')))"

definition update :: "disk \<Rightarrow> domain \<Rightarrow> string \<Rightarrow> pyval \<Rightarrow> pydict \<Rightarrow> string \<Rightarrow> error + (disk \<times> pydict option)" where
  "update d dm file_name item_id updates now =
     (case update_first item_id updates now (load d dm file_name) of
        None \<Rightarrow> Inr (d, None)
      | Some (data', item') \<Rightarrow>
          let (ok, d') = save d dm file_name data'
          in if ok then Inr (d', Some item')
             else Inl (Exception (''Failed to save updates to '' @ file_name)))"

definition delete :: "disk \<Rightarrow> domain \<Rightarrow> string \<Rightarrow> pyval \<Rightarrow> error + (disk \<times> bool)" where
  "delete d dm file_name item_id =
     (let data = load d dm file_name;
          data' = filter (\<lambda>item. py_str (get item ''id'') \<noteq> py_str item_id) data
      in if length data' < length data
         then (let (ok, d') = save d dm file_name data'
               in if ok then Inr (d', True)
                  else Inl (Exception (''Failed to save deletion to '' @ file_name)))
         else Inr (d, False))"

text \<open>A caller that creates records one after the other, each request with its fields and
  the time of the call; the first failure ends the run.\<close>

fun create_all :: "disk \<Rightarrow> domain \<Rightarrow> string \<Rightarrow> (pydict \<times> string) list \<Rightarrow> error + (disk \<times> pydict list)" where
  "create_all d dm file_name [] = Inr (d, [])"
| "create_all d dm file_name (req # reqs) =
     (case create d dm file_name (fst req) (snd req) of
        Inl e \<Rightarrow> Inl e
      | Inr (d', item) \<Rightarrow>
          (case create_all d' dm file_name reqs of
             Inl e \<Rightarrow> Inl e
           | Inr (d'', items) \<Rightarrow> Inr (d'', item # items)))"

text \<open>The empty, writable disk; a disk with one more file; the identifiers of a collection.\<close>

definition empty_disk :: disk where
  "empty_disk = \<lparr>files = (\<lambda>dm file_name. []), writable = True\<rparr>"

definition disk_with :: "domain \<Rightarrow> string \<Rightarrow> pydict list \<Rightarrow> disk \<Rightarrow> disk" where
  "disk_with dm file_name data d = snd (save d dm file_name data)"

definition ids_of :: "pydict list \<Rightarrow> pyval option list" where
  "ids_of data = map (\<lambda>item. map_of item ''id'') data"

section \<open>The service base class (\<open>services/base_service.py\<close>)\<close>

text \<open>
  A service is its data manager (the domain directory), its domain name, its primary file
  and its \<open>validate_data\<close> method, which subclasses override and which may read
  the disk. \<open>ValidationError\<close>, \<open>NotFoundError\<close> and \<open>ConflictError\<close> are
  subclasses of \<open>ServiceError\<close>; the \<open>except\<close> clauses of the base class
  decide which of them pass through and which become a plain \<open>ServiceError\<close>.
\<close>

record service =
  data_manager :: domain
  domain_name :: string
  get_primary_file :: string
  validate_data :: "disk \<Rightarrow> pydict \<Rightarrow> string \<Rightarrow> error + pydict"

definition upper_char :: "char \<Rightarrow> char" where
  "upper_char c =
     (case map_of (zip ''abcdefghijklmnopqrstuvwxyz'' ''ABCDEFGHIJKLMNOPQRSTUVWXYZ'') c of
        None \<Rightarrow> c | Some u \<Rightarrow> u)"

definition lower_char :: "char \<Rightarrow> char" where
  "lower_char c =
     (case map_of (zip ''ABCDEFGHIJKLMNOPQRSTUVWXYZ'' ''abcdefghijklmnopqrstuvwxyz'') c of
        None \<Rightarrow> c | Some l \<Rightarrow> l)"

definition lower :: "string \<Rightarrow> string" where
  "lower s = map lower_char s"

definition capitalize :: "string \<Rightarrow> string" where
  "capitalize s = (case s of [] \<Rightarrow> [] | c # cs \<Rightarrow> upper_char c # lower cs)"

definition base_validate_data :: "pydict \<Rightarrow> string \<Rightarrow> error + pydict" where
  "base_validate_data data operation =
     (if data = [] then Inl (ValidationError ''Data cannot be empty'') else Inr data)"

definition not_found :: "service \<Rightarrow> pyval \<Rightarrow> error" where
  "not_found svc item_id =
     NotFoundError (capitalize (domain_name svc) @ '' with ID '' @ py_str item_id @ '' not found'')"

definition base_get_by_id :: "service \<Rightarrow> disk \<Rightarrow> pyval \<Rightarrow> error + pydict" where
  "base_get_by_id svc d item_id =
     (case find_by_id d (data_manager svc) (get_primary_file svc) item_id of
        None \<Rightarrow> Inl (not_found svc item_id)
      | Some item \<Rightarrow> if item = [] then Inl (not_found svc item_id) else Inr item)"

definition base_create :: "service \<Rightarrow> disk \<Rightarrow> pydict \<Rightarrow> string \<Rightarrow> error + (disk \<times> pydict)" where
  "base_create svc d data now =
     (case validate_data svc d data ''create'' of
        Inl (ValidationError m) \<Rightarrow> Inl (ValidationError m)
      | Inl _ \<Rightarrow> Inl (ServiceError (''Failed to create '' @ domain_name svc))
      | Inr validated_data \<Rightarrow>
          (case create d (data_manager svc) (get_primary_file svc) validated_data now of
             Inl _ \<Rightarrow> Inl (ServiceError (''Failed to create '' @ domain_name svc))
           | Inr (d', created_item) \<Rightarrow> Inr (d', created_item)))"

definition base_update :: "service \<Rightarrow> disk \<Rightarrow> pyval \<Rightarrow> pydict \<Rightarrow> string \<Rightarrow> error + (disk \<times> pydict)" where
  "base_update svc d item_id data now =
     (case base_get_by_id svc d item_id of
        Inl (NotFoundError m) \<Rightarrow> Inl (NotFoundError m)
      | Inl _ \<Rightarrow> Inl (ServiceError (''Failed to update '' @ domain_name svc))
      | Inr _ \<Rightarrow>
          (case validate_data svc d data ''update'' of
             Inl (ValidationError m) \<Rightarrow> Inl (ValidationError m)
           | Inl (NotFoundError m) \<Rightarrow> Inl (NotFoundError m)
           | Inl _ \<Rightarrow> Inl (ServiceError (''Failed to update '' @ domain_name svc))
           | Inr validated_data \<Rightarrow>
               (case update d (data_manager svc) (get_primary_file svc) item_id validated_data now of
                  Inl _ \<Rightarrow> Inl (ServiceError (''Failed to update '' @ domain_name svc))
                | Inr (d', None) \<Rightarrow> Inl (not_found svc item_id)
                | Inr (d', Some updated_item) \<Rightarrow>
                    if updated_item = [] then Inl (not_found svc item_id)
                    else Inr (d', updated_item))))"

definition base_find_by_field :: "service \<Rightarrow> disk \<Rightarrow> string \<Rightarrow> pyval \<Rightarrow> pydict list" where
  "base_find_by_field svc d field v =
     find_by_field d (data_manager svc) (get_primary_file svc) field v"

section \<open>Floating-point numbers\<close>

text \<open>
  A Python \<open>float\<close> is an IEEE 754 double. A finite double is a dyadic number
  \<open>m * 2^e\<close>, kept here with an odd mantissa (zero is \<open>Float 0 0\<close>), so that equal
  numbers are equal terms. Every arithmetic operation of Python gives the exact result
  rounded to the nearest number with a significand of 53 bits, ties to the even
  significand; \<open>fl_frac n d\<close> is that rounding of the fraction \<open>n / d\<close>, for
  \<open>d > 0\<close>. The exponent is not bounded: overflow to infinity and subnormal numbers,
  which begin beyond \<open>10^308\<close> and below \<open>10^-308\<close>, are outside the model, and so are
  NaN and the sign of zero.
\<close>

datatype pyfloat = Float int int

function bit_length :: "int \<Rightarrow> int" where
  "bit_length n = (if n \<le> 0 then 0 else 1 + bit_length (n div 2))"
  by pat_completeness auto
termination
  by (relation "measure nat") auto

declare bit_length.simps [simp del]

text \<open>The integer nearest to \<open>q + r / d\<close> for \<open>0 \<le> r < d\<close>, ties to even, and the
  integer nearest to \<open>n / d\<close>.\<close>

definition nearest :: "int \<Rightarrow> int \<Rightarrow> int \<Rightarrow> int" where
  "nearest q r d = (if 2 * r < d then q else if d < 2 * r then q + 1
                    else if even q then q else q + 1)"

definition round_div :: "int \<Rightarrow> int \<Rightarrow> int" where
  "round_div n d = nearest (n div d) (n mod d) d"

function strip_zeros :: "int \<Rightarrow> int \<Rightarrow> pyfloat" where
  "strip_zeros m e =
     (if m = 0 then Float 0 0
      else if even m then strip_zeros (m div 2) (e + 1)
      else Float m e)"
  by pat_completeness auto
termination
  by (relation "measure (\<lambda>(m, e). nat \<bar>m\<bar>)") auto

declare strip_zeros.simps [simp del]

text \<open>\<open>scaled_div a d e\<close> is the integer nearest to \<open>a / (d * 2^e)\<close>, and
  \<open>reaches a d e\<close> tells whether \<open>a / (d * 2^e)\<close> is at least \<open>2^53\<close>. The bit
  lengths place \<open>a / (d * 2^e0)\<close> between \<open>2^52\<close> and \<open>2^54\<close>; one more
  comparison gives the exponent at which the significand has 53 bits.\<close>

definition scaled_div :: "int \<Rightarrow> int \<Rightarrow> int \<Rightarrow> int" where
  "scaled_div a d e = (if e < 0 then round_div (a * 2 ^ nat (- e)) d else round_div a (d * 2 ^ nat e))"

definition reaches :: "int \<Rightarrow> int \<Rightarrow> int \<Rightarrow> bool" where
  "reaches a d e = (if e < 0 then 2 ^ 53 * d \<le> a * 2 ^ nat (- e) else 2 ^ 53 * (d * 2 ^ nat e) \<le> a)"

definition fl_at :: "int \<Rightarrow> int \<Rightarrow> int \<Rightarrow> pyfloat" where
  "fl_at n d e = strip_zeros (sgn n * scaled_div \<bar>n\<bar> d e) e"

definition fl_from :: "int \<Rightarrow> int \<Rightarrow> int \<Rightarrow> pyfloat" where
  "fl_from n d e0 = fl_at n d (if reaches \<bar>n\<bar> d e0 then e0 + 1 else e0)"

definition fl_frac :: "int \<Rightarrow> int \<Rightarrow> pyfloat" where
  "fl_frac n d = (if n = 0 then Float 0 0 else fl_from n d (bit_length \<bar>n\<bar> - bit_length d - 53))"

text \<open>The conversion of an integer, the rounding of a dyadic number, and the operations
  \<open>*\<close>, \<open>+\<close>, unary \<open>-\<close>, \<open>-\<close> and \<open><\<close> of floats.\<close>

definition float_of_int :: "int \<Rightarrow> pyfloat" where
  "float_of_int i = fl_frac i 1"

definition round_dyadic :: "int \<Rightarrow> int \<Rightarrow> pyfloat" where
  "round_dyadic m e = (if 0 \<le> e then fl_frac (m * 2 ^ nat e) 1 else fl_frac m (2 ^ nat (- e)))"


fun fadd :: "pyfloat \<Rightarrow> pyfloat \<Rightarrow> pyfloat" where
  "fadd (Float m1 e1) (Float m2 e2) =
     round_dyadic (m1 * 2 ^ nat (e1 - min e1 e2) + m2 * 2 ^ nat (e2 - min e1 e2)) (min e1 e2)"

fun fneg :: "pyfloat \<Rightarrow> pyfloat" where
  "fneg (Float m e) = Float (- m) e"

definition fsub :: "pyfloat \<Rightarrow> pyfloat \<Rightarrow> pyfloat" where
  "fsub x y = fadd x (fneg y)"

fun fless :: "pyfloat \<Rightarrow> pyfloat \<Rightarrow> bool" where
  "fless (Float m1 e1) (Float m2 e2) =
     (m1 * 2 ^ nat (e1 - min e1 e2) < m2 * 2 ^ nat (e2 - min e1 e2))"



text \<open>\<open>sum\<close> of a sequence of values, starting from the integer 0: booleans count as
  0 and 1, anything else raises \<open>TypeError\<close>.\<close>

fun py_sum :: "pyval list \<Rightarrow> error + int" where
  "py_sum [] = Inr 0"
| "py_sum (v # vs) =
     (case num_of v of
        None \<Rightarrow> Inl TypeError
      | Some i \<Rightarrow> (case py_sum vs of Inl e \<Rightarrow> Inl e | Inr s \<Rightarrow> Inr (i + s)))"

text \<open>A value used as a number: \<open>TypeError\<close> unless it is an integer or a boolean.\<close>

definition py_num :: "pyval \<Rightarrow> error + int" where
  "py_num v = (case num_of v of None \<Rightarrow> Inl TypeError | Some i \<Rightarrow> Inr i)"

section \<open>Reviews: validation (\<open>services/review_service.py\<close>)\<close>

text \<open>\<open>not x\<close> on the result of \<open>find_by_id\<close>: \<open>None\<close> and the empty
  dictionary are both falsy.\<close>

definition found :: "pydict option \<Rightarrow> bool" where
  "found r = (case r of None \<Rightarrow> False | Some item \<Rightarrow> item \<noteq> [])"

definition required_error :: "string \<Rightarrow> error" where
  "required_error field = ValidationError (''Field '' @ [CHR 0x27] @ field @ [CHR 0x27] @ '' is required'')"

text \<open>\<open>not isinstance(rating, int) or rating < 1 or rating > 5\<close>; a boolean is an
  instance of \<open>int\<close>.\<close>

definition bad_rating :: "pyval \<Rightarrow> bool" where
  "bad_rating rating = (case num_of rating of None \<Rightarrow> True | Some i \<Rightarrow> i < 1 \<or> i > 5)"

definition rating_fields :: "string list" where
  "rating_fields = [''overall_rating'', ''cleanliness_rating'', ''accuracy_rating'',
                    ''communication_rating'', ''location_rating'', ''check_in_rating'',
                    ''value_rating'']"

definition review_validate_data :: "disk \<Rightarrow> pydict \<Rightarrow> string \<Rightarrow> error + pydict" where
  "review_validate_data d data operation =
     (case base_validate_data data operation of
        Inl e \<Rightarrow> Inl e
      | Inr validated_data \<Rightarrow>
          if operation = ''create'' then
            (case find (\<lambda>field. map_of validated_data field = None)
                    [''property_id'', ''guest_id'', ''booking_id'', ''overall_rating'', ''comment''] of
               Some field \<Rightarrow> Inl (required_error field)
             | None \<Rightarrow>
                 let property_id = get validated_data ''property_id'';
                     guest_id = get validated_data ''guest_id'';
                     booking_id = get validated_data ''booking_id''
                 in
                 if \<not> found (find_by_id d Properties ''rooms.json'' property_id)
                 then Inl (ValidationError (''Property with ID '' @ py_str property_id @ '' not found''))
                 else if \<not> found (find_by_id d Users ''users.json'' guest_id)
                 then Inl (ValidationError (''User with ID '' @ py_str guest_id @ '' not found''))
                 else
                   (case find_by_id d Bookings ''bookings.json'' booking_id of
                      None \<Rightarrow> Inl (ValidationError (''Booking with ID '' @ py_str booking_id @ '' not found''))
                    | Some booking \<Rightarrow>
                        if booking = []
                        then Inl (ValidationError (''Booking with ID '' @ py_str booking_id @ '' not found''))
                        else
                          (case subscript booking ''guest_id'' of
                             Inl e \<Rightarrow> Inl e
                           | Inr g \<Rightarrow>
                               if \<not> py_eq g guest_id
                               then Inl (ValidationError ''You can only review your own bookings'')
                               else
                                 (case subscript booking ''property_id'' of
                                    Inl e \<Rightarrow> Inl e
                                  | Inr p \<Rightarrow>
                                      if \<not> py_eq p property_id
                                      then Inl (ValidationError ''Booking does not match the property'')
                                      else if \<not> py_eq (get booking ''status'') (PStr ''completed'')
                                      then Inl (ValidationError ''You can only review completed bookings'')
                                      else if find_by_field d Reviews ''property_reviews.json'' ''booking_id'' booking_id \<noteq> []
                                      then Inl (ValidationError ''Review already exists for this booking'')
                                      else
                                        (case find (\<lambda>field. map_of validated_data field \<noteq> None
                                                        \<and> bad_rating (get validated_data field)) rating_fields of
                                           Some field \<Rightarrow>
                                             Inl (ValidationError (field @ '' must be an integer between 1 and 5''))
                                         | None \<Rightarrow>
                                             (case get_or validated_data ''comment'' (PStr []) of
                                                PStr comment \<Rightarrow>
                                                  if length comment < 10
                                                  then Inl (ValidationError ''Comment must be at least 10 characters long'')
                                                  else if length comment > 1000
                                                  then Inl (ValidationError ''Comment cannot exceed 1000 characters'')
                                                  else Inr (AList.update ''is_public''
                                                              (get_or validated_data ''is_public'' (PBool True))
                                                              validated_data)
                                              | _ \<Rightarrow> Inl TypeError))))))
          else Inr validated_data)"

definition review_service :: service where
  "review_service = \<lparr>data_manager = Reviews, domain_name = ''review'',
                      get_primary_file = ''property_reviews.json'',
                      validate_data = review_validate_data\<rparr>"

section \<open>Users: validation (\<open>services/user_service.py\<close>)\<close>

text \<open>
  The email pattern \<open>^[a-zA-Z0-9._%+-]+@[a-zA-Z0-9.-]+\.[a-zA-Z]{2,}$\<close>, matched with
  \<open>re.match\<close>. No character class contains \<open>@\<close> and the last class contains no dot,
  so a string matches when the longest prefix of local characters is not empty and is followed
  by \<open>@\<close>, the rest consists of domain characters, and what follows its last dot is at
  least two letters, with something before that dot. \<open>$\<close> also matches before a final
  newline.
\<close>

definition is_alpha :: "char \<Rightarrow> bool" where
  "is_alpha c = (c \<in> set ''abcdefghijklmnopqrstuvwxyzABCDEFGHIJKLMNOPQRSTUVWXYZ'')"

definition is_alnum :: "char \<Rightarrow> bool" where
  "is_alnum c = (is_alpha c \<or> c \<in> set ''0123456789'')"

definition local_char :: "char \<Rightarrow> bool" where
  "local_char c = (is_alnum c \<or> c \<in> set ''._%+-'')"

definition domain_char :: "char \<Rightarrow> bool" where
  "domain_char c = (is_alnum c \<or> c \<in> set ''.-'')"

definition email_body :: "string \<Rightarrow> bool" where
  "email_body s =
     (let local_part = takeWhile local_char s;
          rest = dropWhile local_char s
      in local_part \<noteq> [] \<and>
         (case rest of
            [] \<Rightarrow> False
          | c # domain_part \<Rightarrow>
              c = CHR ''@'' \<and> list_all domain_char domain_part \<and>
              (let tld = rev (takeWhile (\<lambda>x. x \<noteq> CHR ''.'') (rev domain_part))
               in CHR ''.'' \<in> set domain_part \<and> 2 \<le> length tld \<and> list_all is_alpha tld \<and>
                  length tld + 1 < length domain_part)))"

definition email_match :: "string \<Rightarrow> bool" where
  "email_match s = (email_body s \<or> (s \<noteq> [] \<and> last s = CHR 0x0A \<and> email_body (butlast s)))"

text \<open>\<open>if key in d: d[key] = f(d[key])\<close> for a string method \<open>f\<close>; a value that is
  not a string has no such method.\<close>

definition sanitize_field :: "string \<Rightarrow> (string \<Rightarrow> string) \<Rightarrow> pydict \<Rightarrow> error + pydict" where
  "sanitize_field key f data =
     (case map_of data key of
        None \<Rightarrow> Inr data
      | Some (PStr s) \<Rightarrow> Inr (AList.update key (PStr (f s)) data)
      | Some _ \<Rightarrow> Inl AttributeError)"

definition user_sanitize :: "pydict \<Rightarrow> error + pydict" where
  "user_sanitize data =
     (case sanitize_field ''email'' (\<lambda>s. strip (lower s)) data of
        Inl e \<Rightarrow> Inl e
      | Inr data1 \<Rightarrow>
          (case sanitize_field ''first_name'' strip data1 of
             Inl e \<Rightarrow> Inl e
           | Inr data2 \<Rightarrow> sanitize_field ''last_name'' strip data2))"

definition user_validate_data :: "disk \<Rightarrow> pydict \<Rightarrow> string \<Rightarrow> error + pydict" where
  "user_validate_data d data operation =
     (case base_validate_data data operation of
        Inl e \<Rightarrow> Inl e
      | Inr validated_data \<Rightarrow>
          if operation = ''create'' then
            (case find (\<lambda>field. map_of validated_data field = None \<or> \<not> truthy (get validated_data field))
                    [''email'', ''password'', ''first_name'', ''last_name''] of
               Some field \<Rightarrow> Inl (required_error field)
             | None \<Rightarrow>
                 (case get validated_data ''email'' of
                    PStr email \<Rightarrow>
                      if \<not> email_match email then Inl (ValidationError ''Invalid email format'')
                      else if find_by_field d Users ''users.json'' ''email'' (PStr email) \<noteq> []
                      then Inl (ConflictError ''Email already registered'')
                      else
                        (case get validated_data ''password'' of
                           PStr password \<Rightarrow>
                             if length password < 8
                             then Inl (ValidationError ''Password must be at least 8 characters long'')
                             else user_sanitize validated_data
                         | _ \<Rightarrow> Inl TypeError)
                  | _ \<Rightarrow> Inl TypeError))
          else user_sanitize validated_data)"

definition user_service :: service where
  "user_service = \<lparr>data_manager = Users, domain_name = ''user'',
                    get_primary_file = ''users.json'',
                    validate_data = user_validate_data\<rparr>"

section \<open>Payments: validation and refunds (\<open>services/payment_service.py\<close>)\<close>

definition valid_methods :: "string list" where
  "valid_methods = [''credit_card'', ''debit_card'', ''paypal'', ''bank_transfer'',
                    ''apple_pay'', ''google_pay'']"

text \<open>The generated transaction identifier (a date and a random UUID prefix) is the argument
  \<open>transaction_id\<close>.\<close>

definition payment_validate_data :: "string \<Rightarrow> disk \<Rightarrow> pydict \<Rightarrow> string \<Rightarrow> error + pydict" where
  "payment_validate_data transaction_id d data operation =
     (case base_validate_data data operation of
        Inl e \<Rightarrow> Inl e
      | Inr validated_data \<Rightarrow>
          if operation = ''create'' then
            (case find (\<lambda>field. map_of validated_data field = None)
                    [''booking_id'', ''amount'', ''payment_method''] of
               Some field \<Rightarrow> Inl (required_error field)
             | None \<Rightarrow>
                 let booking_id = get validated_data ''booking_id'' in
                 if \<not> found (find_by_id d Bookings ''bookings.json'' booking_id)
                 then Inl (ValidationError (''Booking with ID '' @ py_str booking_id @ '' not found''))
                 else if (case num_of (get validated_data ''amount'') of
                            None \<Rightarrow> True | Some amount \<Rightarrow> amount \<le> 0)
                 then Inl (ValidationError ''Amount must be a positive number'')
                 else if \<not> list_ex (py_eq (get validated_data ''payment_method'')) (map PStr valid_methods)
                 then Inl (ValidationError
                   ''Invalid payment method. Must be one of: credit_card, debit_card, paypal, bank_transfer, apple_pay, google_pay'')
                 else
                   (let v1 = AList.update ''status'' (get_or validated_data ''status'' (PStr ''pending'')) validated_data;
                        v2 = AList.update ''currency'' (get_or v1 ''currency'' (PStr ''USD'')) v1
                    in Inr (AList.update ''transaction_id''
                              (get_or v2 ''transaction_id'' (PStr transaction_id)) v2)))
          else Inr validated_data)"

definition payment_service :: "string \<Rightarrow> service" where
  "payment_service transaction_id =
     \<lparr>data_manager = Payments, domain_name = ''payment'',
      get_primary_file = ''payments.json'',
      validate_data = payment_validate_data transaction_id\<rparr>"

text \<open>\<open>sum(r.get("amount", 0) for r in existing_refunds if r.get("status") == "completed")\<close>;
  adding a value that is not a number raises \<open>TypeError\<close>.\<close>

fun sum_completed :: "pydict list \<Rightarrow> error + int" where
  "sum_completed [] = Inr 0"
| "sum_completed (r # rs) =
     (if py_eq (get r ''status'') (PStr ''completed'')
      then (case num_of (get_or r ''amount'' (PInt 0)) of
              None \<Rightarrow> Inl TypeError
            | Some a \<Rightarrow> (case sum_completed rs of Inl e \<Rightarrow> Inl e | Inr s \<Rightarrow> Inr (a + s)))
      else sum_completed rs)"

text \<open>
  \<open>initiate_refund\<close>. The refund amount \<open>None\<close> asks for all that is left. The outcome
  of the simulated gateway (a random draw) is the argument \<open>gateway_ok\<close>, and \<open>now\<close>
  gives the successive clock readings of one call. The nested \<open>gateway_response\<close> object,
  which the last update would store, has no counterpart among the values of this model and
  is left out of that update.
\<close>

definition initiate_refund ::
  "string \<Rightarrow> bool \<Rightarrow> (nat \<Rightarrow> string) \<Rightarrow> disk \<Rightarrow> pyval \<Rightarrow> pyval \<Rightarrow> string \<Rightarrow> error + (disk \<times> pydict)" where
  "initiate_refund transaction_id gateway_ok now d payment_id refund_amount reason =
     (let svc = payment_service transaction_id in
      case base_get_by_id svc d payment_id of
        Inl e \<Rightarrow> Inl e
      | Inr payment \<Rightarrow>
          if \<not> py_eq (get payment ''status'') (PStr ''completed'')
          then Inl (ValidationError ''Can only refund completed payments'')
          else
            (case sum_completed (base_find_by_field svc d ''original_payment_id'' payment_id) of
               Inl e \<Rightarrow> Inl e
             | Inr total_refunded \<Rightarrow>
                 (case subscript payment ''amount'' of
                    Inl e \<Rightarrow> Inl e
                  | Inr original_amount \<Rightarrow>
                      (case (if refund_amount = PNone
                             then (case py_num original_amount of
                                     Inl e \<Rightarrow> Inl e | Inr oa \<Rightarrow> Inr (oa - total_refunded))
                             else py_num refund_amount) of
                         Inl e \<Rightarrow> Inl e
                       | Inr amount \<Rightarrow>
                           if amount \<le> 0 then Inl (ValidationError ''Invalid refund amount'')
                           else
                             (case py_num original_amount of
                                Inl e \<Rightarrow> Inl e
                              | Inr oa \<Rightarrow>
                                  if total_refunded + amount > oa
                                  then Inl (ValidationError ''Refund amount exceeds original payment'')
                                  else
                                    (case subscript payment ''booking_id'' of
                                       Inl e \<Rightarrow> Inl e
                                     | Inr booking_id \<Rightarrow>
                                         (case subscript payment ''payment_method'' of
                                            Inl e \<Rightarrow> Inl e
                                          | Inr payment_method \<Rightarrow>
                                              (let refund_data =
                                                 [(''original_payment_id'', payment_id),
                                                  (''booking_id'', booking_id),
                                                  (''amount'', PInt (- amount)),
                                                  (''payment_method'', payment_method),
                                                  (''status'', PStr ''pending''),
                                                  (''transaction_type'', PStr ''refund''),
                                                  (''refund_reason'', PStr reason),
                                                  (''currency'', get_or payment ''currency'' (PStr ''USD''))]
                                               in
                                               case base_create svc d refund_data (now 0) of
                                                 Inl e \<Rightarrow> Inl e
                                               | Inr (d1, refund) \<Rightarrow>
                                                   if gateway_ok then
                                                     (case base_update svc d1 (get refund ''id'')
                                                             [(''status'', PStr ''completed''),
                                                              (''processed_at'', PStr (now 1))] (now 2) of
                                                        Inl e \<Rightarrow> Inl e
                                                      | Inr (d2, updated_refund) \<Rightarrow>
                                                          if total_refunded + amount \<ge> oa then
                                                            (case update d2 Bookings ''bookings.json'' booking_id
                                                                    [(''payment_status'', PStr ''refunded'')] (now 3) of
                                                               Inl e \<Rightarrow> Inl e
                                                             | Inr (d3, _) \<Rightarrow> Inr (d3, updated_refund))
                                                          else Inr (d2, updated_refund))
                                                   else
                                                     base_update svc d1 (get refund ''id'')
                                                       [(''status'', PStr ''failed''),
                                                        (''error_message'', PStr ''Refund processing failed'')]
                                                       (now 1)))))))))"

section \<open>Bookings: availability and price (\<open>services/booking_service.py\<close>)\<close>

text \<open>
  A date is its proleptic Gregorian ordinal (\<open>date.toordinal()\<close>), so that dates compare
  and subtract as integers. The standard library's
  \<open>datetime.fromisoformat(s).date()\<close> is an argument \<open>fromisoformat\<close> of the functions
  that parse dates: it gives the ordinal, or \<open>None\<close> where Python raises
  \<open>ValueError\<close>. The source first replaces every \<open>Z\<close> of the string by
  \<open>+00:00\<close>.
\<close>

definition replace_Z :: "string \<Rightarrow> string" where
  "replace_Z s = concat (map (\<lambda>c. if c = CHR ''Z'' then ''+00:00'' else [c]) s)"

text \<open>\<open>datetime.fromisoformat(record[key].replace('Z', '+00:00')).date()\<close>: \<open>KeyError\<close>
  for an absent key, \<open>AttributeError\<close> for a value that is not a string,
  \<open>ValueError\<close> for a string that is not a date.\<close>

definition parse_date :: "(string \<Rightarrow> int option) \<Rightarrow> pydict \<Rightarrow> string \<Rightarrow> error + int" where
  "parse_date fromisoformat record key =
     (case subscript record key of
        Inl e \<Rightarrow> Inl e
      | Inr (PStr s) \<Rightarrow>
          (case fromisoformat (replace_Z s) of None \<Rightarrow> Inl ValueError | Some day \<Rightarrow> Inr day)
      | Inr _ \<Rightarrow> Inl AttributeError)"

definition active :: "pydict \<Rightarrow> bool" where
  "active booking = list_ex (py_eq (get booking ''status'')) [PStr ''confirmed'', PStr ''pending'']"

text \<open>The loop of \<open>_check_availability\<close> over the bookings of the property: \<open>Inr\<close> is
  the value it returns, \<open>Inl\<close> the exception that leaves it.\<close>

fun availability_loop :: "(string \<Rightarrow> int option) \<Rightarrow> int \<Rightarrow> int \<Rightarrow> pydict list \<Rightarrow> error + bool" where
  "availability_loop fromisoformat check_in check_out [] = Inr True"
| "availability_loop fromisoformat check_in check_out (booking # bookings) =
     (if active booking then
        (case parse_date fromisoformat booking ''check_in'' of
           Inl e \<Rightarrow> Inl e
         | Inr booking_check_in \<Rightarrow>
             (case parse_date fromisoformat booking ''check_out'' of
                Inl e \<Rightarrow> Inl e
              | Inr booking_check_out \<Rightarrow>
                  if \<not> (check_out \<le> booking_check_in \<or> check_in \<ge> booking_check_out)
                  then Inr False
                  else availability_loop fromisoformat check_in check_out bookings))
      else availability_loop fromisoformat check_in check_out bookings)"

text \<open>\<open>_check_availability\<close>: any exception is logged and answered with \<open>False\<close>.
  \<open>self.find_by_field\<close> is the record store's search in \<open>bookings.json\<close>.\<close>

definition check_availability :: "(string \<Rightarrow> int option) \<Rightarrow> disk \<Rightarrow> pyval \<Rightarrow> int \<Rightarrow> int \<Rightarrow> bool" where
  "check_availability fromisoformat d property_id check_in check_out =
     (case availability_loop fromisoformat check_in check_out
             (find_by_field d Bookings ''bookings.json'' ''property_id'' property_id) of
        Inl e \<Rightarrow> False
      | Inr available \<Rightarrow> available)"

text \<open>The stay of a booking, when both of its dates can be read.\<close>

definition booking_range :: "(string \<Rightarrow> int option) \<Rightarrow> pydict \<Rightarrow> (int \<times> int) option" where
  "booking_range fromisoformat booking =
     (case parse_date fromisoformat booking ''check_in'' of
        Inl e \<Rightarrow> None
      | Inr existing_in \<Rightarrow>
          (case parse_date fromisoformat booking ''check_out'' of
             Inl e \<Rightarrow> None
           | Inr existing_out \<Rightarrow> Some (existing_in, existing_out)))"

definition overlaps :: "int \<Rightarrow> int \<Rightarrow> int \<times> int \<Rightarrow> bool" where
  "overlaps requested_in requested_out existing =
     (\<not> (requested_out \<le> fst existing \<or> requested_in \<ge> snd existing))"

subsection \<open>Calendar dates of the form \<open>YYYY-MM-DD\<close>\<close>

text \<open>The examples give their dates in the form \<open>YYYY-MM-DD\<close>; \<open>iso_date\<close> reads this
  form as \<open>fromisoformat\<close> does, with the ordinal computed as the \<open>datetime\<close> module
  computes it.\<close>

definition is_leap :: "nat \<Rightarrow> bool" where
  "is_leap y = (y mod 4 = 0 \<and> (y mod 100 \<noteq> 0 \<or> y mod 400 = 0))"

definition days_in_month :: "nat \<Rightarrow> nat \<Rightarrow> nat" where
  "days_in_month y m =
     (if m = 2 then (if is_leap y then 29 else 28)
      else if m \<in> set [4, 6, 9, 11] then 30 else 31)"

definition days_before_year :: "nat \<Rightarrow> nat" where
  "days_before_year y = (y - 1) * 365 + (y - 1) div 4 - (y - 1) div 100 + (y - 1) div 400"

definition days_before_month :: "nat \<Rightarrow> nat \<Rightarrow> nat" where
  "days_before_month y m =
     [0, 31, 59, 90, 120, 151, 181, 212, 243, 273, 304, 334] ! (m - 1)
       + (if m > 2 \<and> is_leap y then 1 else 0)"

definition toordinal :: "nat \<Rightarrow> nat \<Rightarrow> nat \<Rightarrow> int" where
  "toordinal y m dd = int (days_before_year y + days_before_month y m + dd)"

definition number_of :: "string \<Rightarrow> nat" where
  "number_of s = foldl (\<lambda>acc c. acc * 10 + digit_val c) 0 s"

definition iso_date :: "string \<Rightarrow> int option" where
  "iso_date s =
     (if length s = 10 \<and> s ! 4 = CHR ''-'' \<and> s ! 7 = CHR ''-''
         \<and> list_all is_digit (take 4 s @ take 2 (drop 5 s) @ drop 8 s)
      then (let y = number_of (take 4 s);
                m = number_of (take 2 (drop 5 s));
                dd = number_of (drop 8 s)
            in if 1 \<le> y \<and> 1 \<le> m \<and> m \<le> 12 \<and> 1 \<le> dd \<and> dd \<le> days_in_month y m
               then Some (toordinal y m dd) else None)
      else None)"

subsection \<open>The price of a stay\<close>



section \<open>Reviews: statistics and trend (\<open>services/review_service.py\<close>)\<close>

text \<open>
  \<open>sorted(reviews, key=lambda x: x.get("created_at", ""), reverse=True)\<close>. Python sorts in
  descending order by reversing the list, sorting it stably in ascending order, and reversing
  the result. Strings compare by code point, numbers by value; a list of at least two
  records whose keys are neither all strings nor all numbers raises \<open>TypeError\<close>.
\<close>

definition created_at :: "pydict \<Rightarrow> pyval" where
  "created_at review = get_or review ''created_at'' (PStr [])"

definition is_str :: "pyval \<Rightarrow> bool" where
  "is_str v = (case v of PStr s \<Rightarrow> True | _ \<Rightarrow> False)"

definition str_key :: "pyval \<Rightarrow> string" where
  "str_key v = (case v of PStr s \<Rightarrow> s | _ \<Rightarrow> [])"

definition num_key :: "pyval \<Rightarrow> int" where
  "num_key v = (case num_of v of Some i \<Rightarrow> i | None \<Rightarrow> 0)"

definition sorted_newest_first :: "pydict list \<Rightarrow> error + pydict list" where
  "sorted_newest_first reviews =
     (if length reviews \<le> 1 then Inr reviews
      else if list_all (\<lambda>review. is_str (created_at review)) reviews
      then Inr (rev (sort_key (\<lambda>review. str_key (created_at review)) (rev reviews)))
      else if list_all (\<lambda>review. num_of (created_at review) \<noteq> None) reviews
      then Inr (rev (sort_key (\<lambda>review. num_key (created_at review)) (rev reviews)))
      else Inl TypeError)"

definition overall_rating :: "pydict \<Rightarrow> pyval" where
  "overall_rating review = get_or review ''overall_rating'' (PInt 0)"

text \<open>\<open>_calculate_rating_trend\<close>. The two averages are integer sums divided by lengths,
  which Python rounds to the nearest double; \<open>0.3\<close> is the double nearest to three
  tenths.\<close>

definition calculate_rating_trend :: "pydict list \<Rightarrow> error + string" where
  "calculate_rating_trend reviews =
     (if length reviews < 10 then Inr ''insufficient_data''
      else
        (case sorted_newest_first reviews of
           Inl e \<Rightarrow> Inl e
         | Inr sorted_reviews \<Rightarrow>
             (let recent_10 = take 10 sorted_reviews;
                  previous_10 = (if length sorted_reviews \<ge> 20
                                 then take 10 (drop 10 sorted_reviews)
                                 else drop 10 sorted_reviews)
              in if previous_10 = [] then Inr ''stable''
                 else
                   (case py_sum (map overall_rating recent_10) of
                      Inl e \<Rightarrow> Inl e
                    | Inr recent_sum \<Rightarrow>
                        (case py_sum (map overall_rating previous_10) of
                           Inl e \<Rightarrow> Inl e
                         | Inr previous_sum \<Rightarrow>
                             (let recent_avg = fl_frac recent_sum (int (length recent_10));
                                  previous_avg = fl_frac previous_sum (int (length previous_10));
                                  diff = fsub recent_avg previous_avg
                              in if fless (fl_frac 3 10) diff then Inr ''improving''
                                 else if fless diff (fneg (fl_frac 3 10)) then Inr ''declining''
                                 else Inr ''stable''))))))"









definition rating_sum :: "pydict list \<Rightarrow> int" where
  "rating_sum reviews = sum_list (map (\<lambda>review. num_key (overall_rating review)) reviews)"

section \<open>Stores and requests of the examples\<close>

text \<open>A store of two reviews, for the examples below.\<close>

definition two_reviews_disk :: disk where
  "two_reviews_disk = disk_with Reviews ''property_reviews.json''
     [[(''id'', PInt 1), (''comment'', PStr ''fine'')], [(''id'', PInt 2), (''comment'', PStr ''good'')]]
     empty_disk"

text \<open>A store for the review examples: one room, one user, three bookings of that user
  (a completed one, a pending one, and a pending one that names its room under
  \<open>room_id\<close>), and one review of the completed booking.\<close>

definition gating_disk :: disk where
  "gating_disk =
     disk_with Properties ''rooms.json'' [[(''id'', PInt 1), (''title'', PStr ''Loft'')]]
    (disk_with Users ''users.json'' [[(''id'', PInt 3), (''first_name'', PStr ''Ann'')]]
    (disk_with Bookings ''bookings.json''
       [[(''id'', PInt 7), (''guest_id'', PInt 3), (''property_id'', PInt 1), (''status'', PStr ''completed'')],
        [(''id'', PInt 8), (''guest_id'', PInt 3), (''property_id'', PInt 1), (''status'', PStr ''pending'')],
        [(''id'', PInt 9), (''guest_id'', PInt 3), (''room_id'', PInt 1), (''status'', PStr ''pending'')]]
    (disk_with Reviews ''property_reviews.json''
       [[(''id'', PInt 1), (''property_id'', PInt 1), (''guest_id'', PInt 3), (''booking_id'', PInt 7),
         (''overall_rating'', PInt 5), (''comment'', PStr ''A very good stay'')]]
     empty_disk)))"

definition review_request :: "pyval \<Rightarrow> pydict" where
  "review_request booking_id =
     [(''property_id'', PInt 1), (''guest_id'', PInt 3), (''booking_id'', booking_id),
      (''overall_rating'', PInt 4), (''comment'', PStr ''Clean and quiet place'')]"

text \<open>A store with one registered user, and a registration request for an email address.\<close>

definition one_user_disk :: disk where
  "one_user_disk = disk_with Users ''users.json''
     [[(''id'', PInt 1), (''email'', PStr ''alice@example.com''), (''password'', PStr ''correct-horse''),
       (''first_name'', PStr ''Alice''), (''last_name'', PStr ''Liddell'')]]
     empty_disk"

definition registration :: "string \<Rightarrow> pydict" where
  "registration email =
     [(''email'', PStr email), (''password'', PStr ''battery-staple''),
      (''first_name'', PStr ''Alice''), (''last_name'', PStr ''Pleasance'')]"

text \<open>A store for the refund example: booking 4, its completed payment of 200, and one
  completed refund of 150 against that payment, stored with a negative amount, as
  \<open>initiate_refund\<close> writes refunds.\<close>

definition refund_disk :: disk where
  "refund_disk =
     disk_with Bookings ''bookings.json''
       [[(''id'', PInt 4), (''guest_id'', PInt 3), (''property_id'', PInt 1), (''status'', PStr ''confirmed'')]]
    (disk_with Payments ''payments.json''
       [[(''id'', PInt 1), (''booking_id'', PInt 4), (''amount'', PInt 200),
         (''payment_method'', PStr ''credit_card''), (''status'', PStr ''completed''),
         (''currency'', PStr ''USD'')],
        [(''id'', PInt 2), (''original_payment_id'', PInt 1), (''booking_id'', PInt 4),
         (''amount'', PInt (- 150)), (''payment_method'', PStr ''credit_card''),
         (''status'', PStr ''completed''), (''transaction_type'', PStr ''refund'')]]
     empty_disk)"

definition clock :: "nat \<Rightarrow> string" where
  "clock n = ''2024-06-10T12:00:0'' @ digits_of n"

text \<open>Two stores of bookings for the examples: a confirmed stay from 2024-06-01 to
  2024-06-05 in property 1, and the same stay recorded under the field names
  \<open>check_in_date\<close> and \<open>check_out_date\<close>.\<close>

definition june_disk :: disk where
  "june_disk = disk_with Bookings ''bookings.json''
     [[(''id'', PInt 1), (''property_id'', PInt 1), (''guest_id'', PInt 3),
       (''check_in'', PStr ''2024-06-01''), (''check_out'', PStr ''2024-06-05''),
       (''status'', PStr ''confirmed'')]]
     empty_disk"

definition june_disk_dated :: disk where
  "june_disk_dated = disk_with Bookings ''bookings.json''
     [[(''id'', PInt 1), (''property_id'', PInt 1), (''guest_id'', PInt 3),
       (''check_in_date'', PStr ''2024-06-01''), (''check_out_date'', PStr ''2024-06-05''),
       (''status'', PStr ''confirmed'')]]
     empty_disk"



text \<open>Reviews for the examples: a review of property 1 with a creation time and an
  overall rating.\<close>

definition review_of :: "string \<Rightarrow> int \<Rightarrow> pydict" where
  "review_of time rating =
     [(''property_id'', PInt 1), (''created_at'', PStr time), (''overall_rating'', PInt rating)]"


definition twenty_low_reviews :: "pydict list" where
  "twenty_low_reviews =
     [review_of ''2024-01-01'' 1, review_of ''2024-01-02'' 1, review_of ''2024-01-03'' 1,
      review_of ''2024-01-04'' 1, review_of ''2024-01-05'' 1, review_of ''2024-01-06'' 1,
      review_of ''2024-01-07'' 1, review_of ''2024-01-08'' 1, review_of ''2024-01-09'' 1,
      review_of ''2024-01-10'' 1, review_of ''2024-01-11'' 1, review_of ''2024-01-12'' 1,
      review_of ''2024-01-13'' 1, review_of ''2024-01-14'' 1, review_of ''2024-01-15'' 1,
      review_of ''2024-01-16'' 1, review_of ''2024-01-17'' 1, review_of ''2024-01-18'' 2,
      review_of ''2024-01-19'' 2, review_of ''2024-01-20'' 2]"



chapter \<open>Verified properties\<close>

section \<open>Evaluation rules\<close>

text \<open>Rules that evaluate the float operations on numerals.\<close>

lemma bit_length_numeral [simp]:
  "bit_length (numeral k) = 1 + bit_length (numeral k div 2)"
  by (subst bit_length.simps) simp

lemma bit_length_0 [simp]: "bit_length 0 = 0"
  by (subst bit_length.simps) simp

lemma bit_length_1 [simp]: "bit_length 1 = 1"
  by (subst bit_length.simps) simp

lemma strip_zeros_0 [simp]: "strip_zeros 0 e = Float 0 0"
  by (subst strip_zeros.simps) simp

lemma strip_zeros_even: "m \<noteq> 0 \<Longrightarrow> even m \<Longrightarrow> strip_zeros m e = strip_zeros (m div 2) (e + 1)"
  by (subst strip_zeros.simps) simp

lemma strip_zeros_odd: "odd m \<Longrightarrow> strip_zeros m e = Float m e"
  by (subst strip_zeros.simps) auto

lemmas float_eval = fl_frac_def fl_from_def fl_at_def reaches_def scaled_div_def round_div_def
  nearest_def strip_zeros_even strip_zeros_odd float_of_int_def round_dyadic_def fsub_def

text \<open>The definitions that the examples unfold.\<close>

lemmas store_eval = create_def update_def save_def load_def get_file_path_def endswith_def
  new_id_def max_list_def dict_update_def get_or_def get_def empty_disk_def disk_with_def
  find_by_id_def find_by_field_def ids_of_def str_of_int_def digits_of.simps digit_char_def
  Let_def
  base_update_def base_get_by_id_def base_validate_data_def review_service_def
  review_validate_data_def

lemmas review_eval = create_def update_def save_def load_def get_file_path_def endswith_def
  new_id_def max_list_def dict_update_def get_or_def get_def empty_disk_def disk_with_def
  find_by_id_def find_by_field_def ids_of_def str_of_int_def digits_of.simps digit_char_def Let_def
  base_create_def base_validate_data_def review_service_def
  review_validate_data_def gating_disk_def review_request_def found_def subscript_def
  bad_rating_def rating_fields_def required_error_def

lemmas user_eval = create_def save_def load_def get_file_path_def endswith_def
  new_id_def max_list_def dict_update_def get_or_def get_def empty_disk_def disk_with_def
  find_by_field_def Let_def base_create_def base_validate_data_def user_service_def
  user_validate_data_def user_sanitize_def sanitize_field_def email_match_def email_body_def
  local_char_def domain_char_def is_alnum_def is_alpha_def lower_def lower_char_def strip_def
  is_space_def one_user_disk_def registration_def required_error_def

lemmas refund_eval = create_def save_def load_def get_file_path_def endswith_def
  new_id_def max_list_def dict_update_def get_or_def get_def empty_disk_def disk_with_def
  find_by_field_def find_by_id_def Let_def base_create_def base_validate_data_def
  base_get_by_id_def base_find_by_field_def payment_service_def payment_validate_data_def
  initiate_refund_def refund_disk_def py_num_def subscript_def found_def
  str_of_int_def digits_of.simps digit_char_def

lemmas date_eval = iso_date_def number_of_def digit_val_def is_digit_def toordinal_def
  days_before_month_def days_before_year_def days_in_month_def is_leap_def

lemmas availability_eval = check_availability_def find_by_field_def load_def save_def
  get_file_path_def endswith_def disk_with_def empty_disk_def get_def get_or_def
  active_def parse_date_def subscript_def replace_Z_def booking_range_def overlaps_def
  june_disk_def june_disk_dated_def




section \<open>The record store assigns and keeps identifiers\<close>

subsection \<open>Dictionaries\<close>

lemma map_of_update_fold:
  "map_of (foldl (\<lambda>acc kv. AList.update (fst kv) (snd kv) acc) d u) k =
     (case map_of (rev u) k of Some v \<Rightarrow> Some v | None \<Rightarrow> map_of d k)"
proof (induction u arbitrary: d)
  case Nil
  then show ?case by simp
next
  case (Cons kv u)
  show ?case
    by (cases kv) (auto simp: Cons.IH update_conv' map_add_def split: option.splits)
qed

lemma map_of_dict_update:
  "map_of (dict_update d u) k =
     (case map_of (rev u) k of Some v \<Rightarrow> Some v | None \<Rightarrow> map_of d k)"
  unfolding dict_update_def by (rule map_of_update_fold)

lemma map_of_rev_distinct:
  "distinct (map fst u) \<Longrightarrow> map_of (rev u) = map_of u"
proof -
  assume d: "distinct (map fst u)"
  then have "distinct (map fst (rev u))" by (simp add: rev_map[symmetric])
  moreover have "set (rev u) = set u" by simp
  ultimately show ?thesis using d map_of_inject_set by blast
qed

lemma map_of_dict_update_absent:
  "k \<notin> fst ` set u \<Longrightarrow> map_of (dict_update d u) k = map_of d k"
  by (simp add: map_of_dict_update map_of_eq_None_iff[THEN iffD2] split: option.splits)

lemma int_ids_ok:
  "map (\<lambda>c. map_of c ''id'') xs = map (\<lambda>i. Some (PInt i)) js \<Longrightarrow> int_ids xs = Inr js"
  by (induction xs arbitrary: js) (auto simp: get_or_def)

lemma foldl_max_Max: "foldl max (a::int) xs = Max (set (a # xs))"
proof (induction xs arbitrary: a)
  case Nil
  then show ?case by simp
next
  case (Cons x xs)
  have "foldl max a (x # xs) = Max (set (max a x # xs))" by (simp add: Cons.IH)
  also have "\<dots> = Max (set (a # x # xs))"
    by (cases "xs = []") (simp_all add: max.assoc)
  finally show ?case .
qed

lemma max_list_upto: "0 < k \<Longrightarrow> max_list (map int [Suc 0..<Suc k]) = int k"
proof -
  assume k: "0 < k"
  then have ne: "map int [Suc 0..<Suc k] \<noteq> []" by simp
  have "max_list (map int [Suc 0..<Suc k]) = Max (set (map int [Suc 0..<Suc k]))"
    unfolding max_list_def foldl_max_Max using ne
    by (metis list.collapse)
  also have "\<dots> = int k"
  proof (rule Max_eqI)
    show "finite (set (map int [Suc 0..<Suc k]))" by simp
    show "\<And>y. y \<in> set (map int [Suc 0..<Suc k]) \<Longrightarrow> y \<le> int k" by auto
    show "int k \<in> set (map int [Suc 0..<Suc k])" using k by auto
  qed
  finally show ?thesis .
qed

lemma new_id_upto:
  assumes "map (\<lambda>c. map_of c ''id'') xs = map (\<lambda>i. Some (PInt (int i))) [1..<Suc k]"
  shows "new_id xs = Inr (int (Suc k))"
proof (cases "k = 0")
  case True
  with assms show ?thesis by (simp add: new_id_def)
next
  case False
  from assms have "map (\<lambda>c. map_of c ''id'') xs = map (\<lambda>i. Some (PInt i)) (map int [1..<Suc k])"
    by (simp add: comp_def)
  then have ids: "int_ids xs = Inr (map int [1..<Suc k])" by (rule int_ids_ok)
  from assms False have "xs \<noteq> []" by auto
  with ids False show ?thesis by (simp add: new_id_def max_list_upto del: upt_Suc)
qed

lemma load_save:
  "writable d \<Longrightarrow> load (snd (save d dm f data)) dm f = data"
  by (simp add: load_def save_def)

lemma writable_save: "writable (snd (save d dm f data)) = writable d"
  by (simp add: save_def)

lemma create_ok:
  assumes "writable d" and "new_id (load d dm f) = Inr n"
  shows "\<exists>d'. create d dm f new_item now =
           Inr (d', dict_update (dict_update [(''id'', PInt n)] new_item)
                      [(''created_at'', PStr now), (''updated_at'', PStr now)])
         \<and> writable d'
         \<and> load d' dm f = load d dm f @ [dict_update (dict_update [(''id'', PInt n)] new_item)
                      [(''created_at'', PStr now), (''updated_at'', PStr now)]]"
  using assms by (simp add: create_def save_def load_def Let_def)

lemma created_id_generated:
  "''id'' \<notin> fst ` set new_item \<Longrightarrow>
   map_of (dict_update (dict_update [(''id'', PInt n)] new_item)
             [(''created_at'', PStr now), (''updated_at'', PStr now)]) ''id'' = Some (PInt n)"
  by (simp add: map_of_dict_update_absent)

lemma create_all_ids:
  assumes "writable d"
    and "map (\<lambda>c. map_of c ''id'') (load d dm f) = map (\<lambda>i. Some (PInt (int i))) [1..<Suc k]"
    and "\<forall>req \<in> set reqs. ''id'' \<notin> fst ` set (fst req)"
  shows "\<exists>d' items. create_all d dm f reqs = Inr (d', items)
           \<and> map (\<lambda>c. map_of c ''id'') items = map (\<lambda>i. Some (PInt (int i))) [Suc k..<Suc (k + length reqs)]
           \<and> load d' dm f = load d dm f @ items"
  using assms
proof (induction reqs arbitrary: d k)
  case Nil
  then show ?case by simp
next
  case (Cons req reqs)
  let ?item = "dict_update (dict_update [(''id'', PInt (int (Suc k)))] (fst req))
                      [(''created_at'', PStr (snd req)), (''updated_at'', PStr (snd req))]"
  from Cons.prems(2) have nid: "new_id (load d dm f) = Inr (int (Suc k))" by (rule new_id_upto)
  from create_ok[OF Cons.prems(1) nid, of "fst req" "snd req"]
  obtain d' where c: "create d dm f (fst req) (snd req) = Inr (d', ?item)"
    and w: "writable d'" and l: "load d' dm f = load d dm f @ [?item]" by blast
  from Cons.prems(3) have noid: "''id'' \<notin> fst ` set (fst req)" by simp
  have idk: "map_of ?item ''id'' = Some (PInt (int (Suc k)))"
    using noid by (rule created_id_generated)
  have inv: "map (\<lambda>c. map_of c ''id'') (load d' dm f) = map (\<lambda>i. Some (PInt (int i))) [1..<Suc (Suc k)]"
    using Cons.prems(2) idk by (simp add: l upt_Suc_append del: upt_Suc)
  from Cons.prems(3) have rest: "\<forall>req \<in> set reqs. ''id'' \<notin> fst ` set (fst req)" by simp
  from Cons.IH[OF w inv rest]
  obtain d'' items where ca: "create_all d' dm f reqs = Inr (d'', items)"
    and ids: "map (\<lambda>c. map_of c ''id'') items = map (\<lambda>i. Some (PInt (int i))) [Suc (Suc k)..<Suc (Suc k + length reqs)]"
    and l': "load d'' dm f = load d' dm f @ items" by blast
  have "create_all d dm f (req # reqs) = Inr (d'', ?item # items)"
    using c ca by simp
  moreover have "map (\<lambda>c. map_of c ''id'') (?item # items)
       = map (\<lambda>i. Some (PInt (int i))) [Suc k..<Suc (k + length (req # reqs))]"
    using idk ids by (simp add: upt_conv_Cons del: upt_Suc)
  moreover have "load d'' dm f = load d dm f @ ?item # items"
    using l l' by simp
  ultimately show ?case by blast
qed

lemma map_of_updated_at:
  "map_of (AList.update ''updated_at'' v item) ''id'' = map_of item ''id''"
  by (simp add: update_conv')

lemma update_first_ids:
  assumes "''id'' \<notin> fst ` set updates"
    and "update_first item_id updates now xs = Some (xs', item')"
  shows "ids_of xs' = ids_of xs"
  using assms(2)
proof (induction xs arbitrary: xs')
  case Nil
  then show ?case by simp
next
  case (Cons item items)
  show ?case
  proof (cases "py_str (get item ''id'') = py_str item_id")
    case True
    with Cons.prems show ?thesis
      using assms(1) by (auto simp: ids_of_def Let_def map_of_updated_at map_of_dict_update_absent)
  next
    case False
    with Cons.prems obtain items' where
      "update_first item_id updates now items = Some (items', item')" and "xs' = item # items'"
      by (auto split: option.splits)
    with Cons.IH show ?thesis by (simp add: ids_of_def)
  qed
qed

lemma update_ids:
  assumes "''id'' \<notin> fst ` set updates"
    and "update d dm f item_id updates now = Inr (d', r)"
  shows "ids_of (load d' dm f) = ids_of (load d dm f)"
proof (cases "update_first item_id updates now (load d dm f)")
  case None
  with assms(2) show ?thesis by (simp add: update_def)
next
  case (Some p)
  obtain data' item' where p: "p = (data', item')" by (cases p)
  from assms(2) Some p have w: "writable d" and d': "d' = snd (save d dm f data')"
    by (auto simp: update_def save_def split: if_splits)
  from w d' have "load d' dm f = data'" by (simp add: load_save)
  moreover from update_first_ids[OF assms(1)] Some p have "ids_of data' = ids_of (load d dm f)"
    by simp
  ultimately show ?thesis by simp
qed

lemma base_update_ids:
  assumes "base_update svc d item_id data now = Inr (d', item)"
    and "\<And>v. validate_data svc d data ''update'' = Inr v \<Longrightarrow> ''id'' \<notin> fst ` set v"
  shows "ids_of (load d' (data_manager svc) (get_primary_file svc))
       = ids_of (load d (data_manager svc) (get_primary_file svc))"
proof -
  from assms(1) obtain v r where
    v: "validate_data svc d data ''update'' = Inr v"
    and u: "update d (data_manager svc) (get_primary_file svc) item_id v now = Inr (d', r)"
    by (auto simp: base_update_def split: sum.splits error.splits option.splits if_splits)
  from update_ids[OF assms(2)[OF v] u] show ?thesis .
qed

lemma update_first_found:
  assumes "find (\<lambda>item. py_str (get item ''id'') = py_str item_id) xs = Some item"
  shows "\<exists>xs'. update_first item_id updates now xs
           = Some (xs', AList.update ''updated_at'' (PStr now) (dict_update item updates))"
  using assms by (induction xs) (auto simp: Let_def)

lemma update_found:
  assumes "writable d" and "find_by_id d dm f item_id = Some item"
  shows "\<exists>d'. update d dm f item_id updates now
           = Inr (d', Some (AList.update ''updated_at'' (PStr now) (dict_update item updates)))"
proof -
  from assms(2) obtain xs' where
    "update_first item_id updates now (load d dm f)
       = Some (xs', AList.update ''updated_at'' (PStr now) (dict_update item updates))"
    unfolding find_by_id_def using update_first_found by blast
  with assms(1) show ?thesis by (simp add: update_def save_def)
qed

lemma updated_item_nonempty:
  "AList.update ''updated_at'' v item \<noteq> []"
  by (cases item) auto

subsection \<open>Identifiers on creation\<close>

text \<open>
  Claim C8, amended. On a writable disk and an empty collection, a caller that creates
  records one after the other, none of whose field mappings has an \<open>id\<close> key, gets the
  identifiers 1, 2, ..., N in creation order, and the collection then holds exactly the
  created records. Each identifier is \<open>new_id\<close> of the collection before the call:
  the greatest stored identifier plus one, or one for the empty collection.
\<close>

theorem create_sequential_ids:
  assumes "writable d" and "load d dm f = []"
    and "\<forall>req \<in> set reqs. ''id'' \<notin> fst ` set (fst req)"
  shows "\<exists>d' items. create_all d dm f reqs = Inr (d', items)
           \<and> ids_of items = map (\<lambda>i. Some (PInt (int i))) [1..<Suc (length reqs)]
           \<and> load d' dm f = items"
proof -
  have "map (\<lambda>c. map_of c ''id'') (load d dm f) = map (\<lambda>i. Some (PInt (int i))) [1..<Suc 0]"
    using assms(2) by simp
  from create_all_ids[OF assms(1) this assms(3)] assms(2) show ?thesis
    by (simp add: ids_of_def)
qed

theorem create_sequential_ids_witness:
  "writable empty_disk \<and> load empty_disk Root ''items.json'' = []
   \<and> (\<exists>d' items. create_all empty_disk Root ''items.json''
          [([(''name'', PStr ''a'')], ''t1''), ([(''name'', PStr ''b'')], ''t2'')] = Inr (d', items)
        \<and> ids_of items = [Some (PInt 1), Some (PInt 2)]
        \<and> load d' Root ''items.json'' = items)"
  using create_sequential_ids [where d = empty_disk and dm = Root and f = "''items.json''"
          and reqs = "[([(''name'', PStr ''a'')], ''t1''), ([(''name'', PStr ''b'')], ''t2'')]"]
  by (simp add: empty_disk_def load_def)

text \<open>Without the restriction the claim fails: fields that carry \<open>id = 5\<close> give the
  first record of an empty collection the identifier 5, not 1.\<close>

theorem create_sequential_ids_counterexample:
  "map_sum id snd (create_all empty_disk Root ''items.json''
       [([(''id'', PInt 5), (''name'', PStr ''a'')], ''t1'')])
   = Inr [[(''id'', PInt 5), (''name'', PStr ''a''), (''created_at'', PStr ''t1''),
           (''updated_at'', PStr ''t1'')]]"
  by (simp add: store_eval)

text \<open>
  Claim C10. When the fields of a \<open>create\<close> call contain an \<open>id\<close> key, the record
  that is returned and appended to the collection carries the caller's value, whatever
  identifier was generated, since the fields are merged after the generated identifier.
\<close>

theorem create_supplied_id_wins:
  assumes "distinct (map fst new_item)" and "map_of new_item ''id'' = Some v"
    and "writable d" and "new_id (load d dm f) = Inr n"
  shows "\<exists>d' item. create d dm f new_item now = Inr (d', item)
           \<and> map_of item ''id'' = Some v
           \<and> load d' dm f = load d dm f @ [item]"
proof -
  let ?item = "dict_update (dict_update [(''id'', PInt n)] new_item)
                      [(''created_at'', PStr now), (''updated_at'', PStr now)]"
  have "map_of (dict_update [(''id'', PInt n)] new_item) ''id'' = Some v"
    using assms(1,2) by (simp add: map_of_dict_update map_of_rev_distinct)
  then have "map_of ?item ''id'' = Some v"
    by (simp add: map_of_dict_update_absent)
  with create_ok[OF assms(3,4), of new_item now] show ?thesis by blast
qed

text \<open>The store of two reviews accepts a third record with the identifier 1 again.\<close>

theorem create_supplied_id_wins_witness:
  "\<exists>d' item. create two_reviews_disk Reviews ''property_reviews.json''
        [(''id'', PInt 1), (''comment'', PStr ''twin'')] ''t3'' = Inr (d', item)
     \<and> map_of item ''id'' = Some (PInt 1)
     \<and> ids_of (load d' Reviews ''property_reviews.json'')
         = [Some (PInt 1), Some (PInt 2), Some (PInt 1)]"
  using create_supplied_id_wins [where new_item = "[(''id'', PInt 1), (''comment'', PStr ''twin'')]"
          and v = "PInt 1" and d = two_reviews_disk and dm = Reviews and f = "''property_reviews.json''"
          and n = 3 and now = "''t3''"]
  by (auto simp: two_reviews_disk_def store_eval)

subsection \<open>Identifiers on update\<close>

text \<open>
  Claim C9, amended. An update whose fields have no \<open>id\<close> key leaves every identifier
  of the collection as it was, and the updated record keeps its own: through
  \<open>DataManager.update\<close>, and through \<open>BaseService.update\<close> of a service whose
  validation of updates is the base one. Both succeed on a writable disk when the record
  is found.
\<close>

theorem update_preserves_ids:
  assumes "''id'' \<notin> fst ` set updates" and "writable d"
  shows "(find_by_id d dm f item_id = Some item \<longrightarrow>
            (\<exists>d' item'. update d dm f item_id updates now = Inr (d', Some item')
               \<and> map_of item' ''id'' = map_of item ''id''
               \<and> ids_of (load d' dm f) = ids_of (load d dm f)))
       \<and> (validate_data svc d updates ''update'' = base_validate_data updates ''update'' \<longrightarrow>
          updates \<noteq> [] \<longrightarrow>
          base_get_by_id svc d item_id = Inr item \<longrightarrow>
            (\<exists>d' item'. base_update svc d item_id updates now = Inr (d', item')
               \<and> map_of item' ''id'' = map_of item ''id''
               \<and> ids_of (load d' (data_manager svc) (get_primary_file svc))
                   = ids_of (load d (data_manager svc) (get_primary_file svc))))"
proof (intro conjI impI)
  let ?item' = "AList.update ''updated_at'' (PStr now) (dict_update item updates)"
  have same: "map_of ?item' ''id'' = map_of item ''id''"
    using assms(1) by (simp add: map_of_updated_at map_of_dict_update_absent)
  {
    assume "find_by_id d dm f item_id = Some item"
    from update_found[OF assms(2) this] obtain d' where
      u: "update d dm f item_id updates now = Inr (d', Some ?item')" by blast
    from update_ids[OF assms(1) u] same u
    show "\<exists>d' item'. update d dm f item_id updates now = Inr (d', Some item')
               \<and> map_of item' ''id'' = map_of item ''id''
               \<and> ids_of (load d' dm f) = ids_of (load d dm f)" by blast
  }
  {
    assume vd: "validate_data svc d updates ''update'' = base_validate_data updates ''update''"
      and ne: "updates \<noteq> []"
      and g: "base_get_by_id svc d item_id = Inr item"
    from g have f: "find_by_id d (data_manager svc) (get_primary_file svc) item_id = Some item"
      by (auto simp: base_get_by_id_def split: option.splits if_splits)
    from update_found[OF assms(2) f] obtain d' where
      u: "update d (data_manager svc) (get_primary_file svc) item_id updates now = Inr (d', Some ?item')"
      by blast
    from vd ne have v: "validate_data svc d updates ''update'' = Inr updates"
      by (simp add: base_validate_data_def)
    from g v u have bu: "base_update svc d item_id updates now = Inr (d', ?item')"
      by (simp add: base_update_def updated_item_nonempty)
    from update_ids[OF assms(1) u] same bu
    show "\<exists>d' item'. base_update svc d item_id updates now = Inr (d', item')
               \<and> map_of item' ''id'' = map_of item ''id''
               \<and> ids_of (load d' (data_manager svc) (get_primary_file svc))
                   = ids_of (load d (data_manager svc) (get_primary_file svc))" by blast
  }
qed

theorem update_preserves_ids_witness:
  "\<exists>d' item'. base_update review_service two_reviews_disk (PInt 2) [(''flagged'', PBool True)] ''t9''
        = Inr (d', item')
     \<and> map_of item' ''id'' = Some (PInt 2)
     \<and> ids_of (load d' Reviews ''property_reviews.json'') = [Some (PInt 1), Some (PInt 2)]"
  using update_preserves_ids [where updates = "[(''flagged'', PBool True)]" and d = two_reviews_disk
          and item = "[(''id'', PInt 2), (''comment'', PStr ''good'')]" and dm = Reviews
          and f = "''property_reviews.json''" and item_id = "PInt 2" and now = "''t9''"
          and svc = review_service]
  by (simp add: two_reviews_disk_def store_eval)

text \<open>An update that carries \<open>id = 99\<close> rewrites the identifier of review 2.\<close>

theorem update_preserves_ids_counterexample:
  "ids_of (load two_reviews_disk Reviews ''property_reviews.json'') = [Some (PInt 1), Some (PInt 2)]
   \<and> map_sum id snd (base_update review_service two_reviews_disk (PInt 2) [(''id'', PInt 99)] ''t9'')
       = Inr [(''id'', PInt 99), (''comment'', PStr ''good''), (''updated_at'', PStr ''t9'')]"
  by (simp add: two_reviews_disk_def store_eval)

section \<open>Reviews are gated by the booking\<close>

lemma review_validate_ok:
  assumes "review_validate_data d data ''create'' = Inr v"
  shows "\<exists>booking. find_by_id d Bookings ''bookings.json'' (get data ''booking_id'') = Some booking
           \<and> py_eq (get booking ''status'') (PStr ''completed'')
           \<and> find_by_field d Reviews ''property_reviews.json'' ''booking_id'' (get data ''booking_id'') = []"
  using assms
  by (simp add: review_validate_data_def base_validate_data_def Let_def
           split: option.splits sum.splits if_splits pyval.splits)

lemma review_validate_error:
  assumes "review_validate_data d data ''create'' = Inl e"
  shows "(\<exists>m. e = ValidationError m)
       \<or> (\<exists>booking. find_by_id d Bookings ''bookings.json'' (get data ''booking_id'') = Some booking
             \<and> (map_of booking ''guest_id'' = None \<or> map_of booking ''property_id'' = None))
       \<or> (e = TypeError
             \<and> (\<exists>booking. find_by_id d Bookings ''bookings.json'' (get data ''booking_id'') = Some booking
                   \<and> py_eq (get booking ''status'') (PStr ''completed''))
             \<and> find_by_field d Reviews ''property_reviews.json'' ''booking_id'' (get data ''booking_id'') = [])"
  using assms
  by (auto simp add: review_validate_data_def base_validate_data_def Let_def required_error_def subscript_def
           split: option.splits sum.splits if_splits pyval.splits)

text \<open>
  Claim C4, amended. Creating a review through \<open>BaseService.create\<close> fails when the
  referenced booking is not completed, or when a stored review has a \<open>booking_id\<close>
  equal (in the sense of \<open>==\<close>) to the request's: with \<open>ValidationError\<close>, or with
  \<open>ServiceError\<close> in the case where the booking record has no \<open>guest_id\<close> or no
  \<open>property_id\<close> field (the \<open>KeyError\<close> is caught by the base class). A review
  is only created when the booking is completed and no stored review has an equal
  \<open>booking_id\<close>.
\<close>

theorem review_gating:
  fixes d :: disk and data :: pydict and now :: string
  defines "r \<equiv> base_create review_service d data now"
  defines "b \<equiv> find_by_id d Bookings ''bookings.json'' (get data ''booking_id'')"
  defines "prior \<equiv> find_by_field d Reviews ''property_reviews.json'' ''booking_id'' (get data ''booking_id'')"
  shows "((\<exists>booking. b = Some booking \<and> \<not> py_eq (get booking ''status'') (PStr ''completed''))
            \<or> prior \<noteq> [] \<longrightarrow>
          (\<exists>m. r = Inl (ValidationError m))
          \<or> (r = Inl (ServiceError ''Failed to create review'')
               \<and> (\<exists>booking. b = Some booking
                     \<and> (map_of booking ''guest_id'' = None \<or> map_of booking ''property_id'' = None))))
       \<and> ((\<exists>d' created. r = Inr (d', created)) \<longrightarrow>
          (\<exists>booking. b = Some booking \<and> py_eq (get booking ''status'') (PStr ''completed''))
          \<and> prior = [])"
proof -
  have part1: "(\<exists>m. r = Inl (ValidationError m))
          \<or> (r = Inl (ServiceError ''Failed to create review'')
               \<and> (\<exists>booking. b = Some booking
                     \<and> (map_of booking ''guest_id'' = None \<or> map_of booking ''property_id'' = None)))"
    if blocked: "(\<exists>booking. b = Some booking \<and> \<not> py_eq (get booking ''status'') (PStr ''completed''))
            \<or> prior \<noteq> []"
  proof (cases "review_validate_data d data ''create''")
    case (Inr v)
    from review_validate_ok[OF Inr] blocked show ?thesis
      by (auto simp: b_def prior_def)
  next
    case (Inl e)
    from review_validate_error[OF Inl] blocked
    consider m where "e = ValidationError m"
      | booking where "b = Some booking"
          "map_of booking ''guest_id'' = None \<or> map_of booking ''property_id'' = None"
      by (auto simp: b_def prior_def)
    then show ?thesis
    proof cases
      case 1
      with Inl show ?thesis by (simp add: r_def base_create_def review_service_def)
    next
      case 2
      with Inl show ?thesis
        by (cases e) (auto simp: r_def base_create_def review_service_def)
    qed
  qed
  have part2: "(\<exists>booking. b = Some booking \<and> py_eq (get booking ''status'') (PStr ''completed''))
          \<and> prior = []"
    if "\<exists>d' created. r = Inr (d', created)"
  proof -
    from that obtain v where "review_validate_data d data ''create'' = Inr v"
      by (auto simp: r_def base_create_def review_service_def split: sum.splits error.splits)
    from review_validate_ok[OF this] show ?thesis
      by (auto simp: b_def prior_def)
  qed
  from part1 part2 show ?thesis by blast
qed

text \<open>The pending booking 8 and the already reviewed booking 7 are both refused with a
  \<open>ValidationError\<close>.\<close>

theorem review_gating_witness:
  "(\<exists>m. base_create review_service gating_disk (review_request (PInt 8)) ''t'' = Inl (ValidationError m))
   \<and> (\<exists>m. base_create review_service gating_disk (review_request (PInt 7)) ''t'' = Inl (ValidationError m))"
  using review_gating [where d = gating_disk and data = "review_request (PInt 8)" and now = "''t''"]
        review_gating [where d = gating_disk and data = "review_request (PInt 7)" and now = "''t''"]
  by (simp add: review_eval)

text \<open>The claim as stated fails twice. Booking 9 is pending and has no
  \<open>property_id\<close> field: the request fails with \<open>ServiceError\<close>, not
  \<open>ValidationError\<close>. And a request that names booking 7 by the string \<open>'7'\<close> finds
  the booking (identifiers are compared as strings) but not its review (fields are compared
  with \<open>==\<close>), so a second review of booking 7 is created.\<close>

theorem review_gating_counterexample:
  "map_sum id snd (base_create review_service gating_disk (review_request (PInt 9)) ''t'')
     = Inl (ServiceError ''Failed to create review'')
   \<and> map_sum id snd (base_create review_service gating_disk (review_request (PStr ''7'')) ''t'')
     = Inr [(''id'', PInt 2), (''property_id'', PInt 1), (''guest_id'', PInt 3),
            (''booking_id'', PStr ''7''), (''overall_rating'', PInt 4),
            (''comment'', PStr ''Clean and quiet place''), (''is_public'', PBool True),
            (''created_at'', PStr ''t''), (''updated_at'', PStr ''t'')]"
  by (simp add: review_eval)

section \<open>Email uniqueness of users\<close>

text \<open>
  Claim C5 does not hold of the code. With \<open>alice@example.com\<close> registered, a request
  for \<open>Alice@Example.com\<close> is accepted: \<open>validate_data\<close> looks the address up as it
  was typed, with exact equality, and lowers it only afterwards, so the store ends up with two
  users of the same lowered address. A request for exactly \<open>alice@example.com\<close> does
  raise \<open>ConflictError\<close> in \<open>validate_data\<close>, but \<open>BaseService.create\<close> lets only
  \<open>ValidationError\<close> through and reports it as a plain \<open>ServiceError\<close>.
\<close>

theorem user_email_case_variant_accepted:
  "map_sum id snd (base_create user_service one_user_disk (registration ''Alice@Example.com'') ''t'')
     = Inr [(''id'', PInt 2), (''email'', PStr ''alice@example.com''),
            (''password'', PStr ''battery-staple''), (''first_name'', PStr ''Alice''),
            (''last_name'', PStr ''Pleasance''), (''created_at'', PStr ''t''),
            (''updated_at'', PStr ''t'')]
   \<and> base_create user_service one_user_disk (registration ''alice@example.com'') ''t''
     = Inl (ServiceError ''Failed to create user'')"
  by (simp add: user_eval)

section \<open>Refunds\<close>

text \<open>The record that \<open>initiate_refund\<close> hands to \<open>create\<close> has a negative amount,
  and the validation of new payments refuses every amount that is not positive.\<close>

lemma refund_create_rejected:
  assumes "\<not> amount \<le> 0"
  shows "base_create (payment_service txn) d
           [(''original_payment_id'', payment_id), (''booking_id'', booking_id),
            (''amount'', PInt (- amount)), (''payment_method'', payment_method),
            (''status'', PStr ''pending''), (''transaction_type'', PStr ''refund''),
            (''refund_reason'', PStr reason), (''currency'', c)] t \<noteq> Inr y"
  using assms
  by (simp add: base_create_def payment_service_def payment_validate_data_def
        base_validate_data_def get_def get_or_def Let_def)

text \<open>So no call of \<open>initiate_refund\<close> returns a refund, whatever the store and the
  request.\<close>

lemma initiate_refund_never_succeeds:
  "\<exists>e. initiate_refund txn gateway_ok now d payment_id refund_amount reason = Inl e"
proof (cases "initiate_refund txn gateway_ok now d payment_id refund_amount reason")
  case (Inl e)
  then show ?thesis by blast
next
  case (Inr x)
  then have False
    unfolding initiate_refund_def Let_def
    by (simp add: refund_create_rejected split: sum.split_asm if_split_asm)
  then show ?thesis ..
qed

text \<open>
  Claim C3 does not hold of the code. A completed payment of 200 has one completed refund
  of 150, stored with the amount -150. The sum of the stored amounts is then -150, the test
  \<open>total_refunded + refund_amount > original_amount\<close> reads \<open>-50 > 200\<close> for a request
  of 100, and the ceiling does not stop it; the request fails later, when the refund record
  is validated, for its negative amount. The request of 50, which the claim expects to
  succeed, fails in the same way.
\<close>

theorem refund_ceiling_not_enforced:
  "initiate_refund txn gateway_ok clock refund_disk (PInt 1) (PInt 100) ''Customer request''
     = Inl (ValidationError ''Amount must be a positive number'')
   \<and> initiate_refund txn gateway_ok clock refund_disk (PInt 1) (PInt 50) ''Customer request''
     = Inl (ValidationError ''Amount must be a positive number'')"
  by (simp add: refund_eval)

section \<open>Availability of a property\<close>

lemma availability_loop_False:
  "availability_loop f ci co bs \<noteq> Inr True \<longleftrightarrow>
     (\<exists>b \<in> set bs. active b \<and>
        (case booking_range f b of None \<Rightarrow> True | Some existing \<Rightarrow> overlaps ci co existing))"
  by (induction bs) (auto simp: booking_range_def overlaps_def split: sum.splits)

text \<open>
  Claim C1, amended. For every property and requested range \<open>[check_in, check_out)\<close>,
  \<open>_check_availability\<close> answers "unavailable" exactly when some booking of that
  property with status \<open>pending\<close> or \<open>confirmed\<close> either has a range
  \<open>[existing_in, existing_out)\<close> with
  \<open>NOT (requested_out <= existing_in OR requested_in >= existing_out)\<close>, or has dates
  that cannot be read (a missing \<open>check_in\<close> or \<open>check_out\<close> field, a value that is
  not a string, a string that is not a date): the exception is answered with \<open>False\<close>.
  This holds for every behaviour of the date parser.
\<close>

theorem availability_exact:
  "\<not> check_availability fromisoformat d property_id check_in check_out \<longleftrightarrow>
     (\<exists>booking \<in> set (find_by_field d Bookings ''bookings.json'' ''property_id'' property_id).
        active booking \<and>
        (case booking_range fromisoformat booking of
           None \<Rightarrow> True
         | Some existing \<Rightarrow> overlaps check_in check_out existing))"
proof -
  let ?bs = "find_by_field d Bookings ''bookings.json'' ''property_id'' property_id"
  have "\<not> check_availability fromisoformat d property_id check_in check_out
          \<longleftrightarrow> availability_loop fromisoformat check_in check_out ?bs \<noteq> Inr True"
    by (auto simp: check_availability_def split: sum.splits)
  then show ?thesis by (simp only: availability_loop_False)
qed

text \<open>With the confirmed stay from 2024-06-01 to 2024-06-05, the request from 2024-06-05
  to 2024-06-08 is available and the request from 2024-06-04 to 2024-06-06 is not.\<close>

theorem availability_exact_witness:
  "iso_date ''2024-06-04'' = Some 739041 \<and> iso_date ''2024-06-05'' = Some 739042
   \<and> iso_date ''2024-06-06'' = Some 739043 \<and> iso_date ''2024-06-08'' = Some 739045
   \<and> check_availability iso_date june_disk (PInt 1) 739042 739045
   \<and> \<not> check_availability iso_date june_disk (PInt 1) 739041 739043"
  using availability_exact [where fromisoformat = iso_date and d = june_disk
          and property_id = "PInt 1" and check_in = 739042 and check_out = 739045]
        availability_exact [where fromisoformat = iso_date and d = june_disk
          and property_id = "PInt 1" and check_in = 739041 and check_out = 739043]
  by (simp add: availability_eval date_eval)

text \<open>The claim as stated fails where a booking cannot be read: with the confirmed June stay
  recorded under \<open>check_in_date\<close> and \<open>check_out_date\<close>, a request for July is
  answered "unavailable", although no booking has a range that overlaps it.\<close>

theorem availability_exact_counterexample:
  "iso_date ''2024-07-01'' = Some 739068 \<and> iso_date ''2024-07-05'' = Some 739072
   \<and> \<not> check_availability iso_date june_disk_dated (PInt 1) 739068 739072
   \<and> map (booking_range iso_date) (load june_disk_dated Bookings ''bookings.json'') = [None]"
  by (simp add: availability_eval date_eval)

section \<open>The price of a stay\<close>



section \<open>Rating trend and review statistics\<close>

lemma py_sum_numbers:
  "list_all (\<lambda>v. num_of v \<noteq> None) vs \<Longrightarrow> py_sum vs = Inr (sum_list (map num_key vs))"
  by (induction vs) (auto simp: num_key_def)

lemma py_sum_ratings:
  "list_all (\<lambda>r. num_of (overall_rating r) \<noteq> None) rs
   \<Longrightarrow> py_sum (map overall_rating rs) = Inr (rating_sum rs)"
  using py_sum_numbers [of "map overall_rating rs"]
  by (simp add: rating_sum_def list_all_iff comp_def)

lemma single_sorted: "length xs \<le> 1 \<Longrightarrow> rev (sort_key k (rev xs)) = xs"
  by (cases xs) auto

lemma sorted_newest_first_strings:
  assumes "list_all (\<lambda>r. is_str (created_at r)) rs"
  shows "sorted_newest_first rs = Inr (rev (sort_key (\<lambda>r. str_key (created_at r)) (rev rs)))"
  using assms by (simp add: sorted_newest_first_def single_sorted)

lemma previous_slice:
  "(if length xs \<ge> 20 then take 10 (drop 10 xs) else drop 10 xs) = take 10 (drop 10 xs)"
  by simp


lemma trend_value:
  assumes "list_all (\<lambda>r. num_of (overall_rating r) \<noteq> None \<and> is_str (created_at r)) reviews"
    and "10 \<le> length reviews"
    and "newest = rev (sort_key (\<lambda>r. str_key (created_at r)) (rev reviews))"
    and "recent = take 10 newest" and "previous = take 10 (drop 10 newest)"
    and "diff = fsub (fl_frac (rating_sum recent) 10)
                     (fl_frac (rating_sum previous) (int (length previous)))"
  shows "calculate_rating_trend reviews =
           Inr (if previous = [] then ''stable''
                else if fless (fl_frac 3 10) diff then ''improving''
                else if fless diff (fneg (fl_frac 3 10)) then ''declining''
                else ''stable'')"
proof -
  from assms(1) have strs: "list_all (\<lambda>r. is_str (created_at r)) reviews"
    and nums: "list_all (\<lambda>r. num_of (overall_rating r) \<noteq> None) reviews"
    by (auto simp: list_all_iff)
  have srt: "sorted_newest_first reviews = Inr newest"
    using sorted_newest_first_strings[OF strs] assms(3) by simp
  have set_newest: "set newest = set reviews" using assms(3) by simp
  have len: "length newest = length reviews" using assms(3) by simp
  have "set recent \<subseteq> set reviews" using set_newest assms(4) by (auto dest: in_set_takeD)
  with nums have "list_all (\<lambda>r. num_of (overall_rating r) \<noteq> None) recent"
    by (auto simp: list_all_iff)
  then have rs: "py_sum (map overall_rating recent) = Inr (rating_sum recent)"
    by (rule py_sum_ratings)
  have "set previous \<subseteq> set reviews"
    using set_newest assms(5) by (auto dest!: in_set_takeD in_set_dropD)
  with nums have "list_all (\<lambda>r. num_of (overall_rating r) \<noteq> None) previous"
    by (auto simp: list_all_iff)
  then have ps: "py_sum (map overall_rating previous) = Inr (rating_sum previous)"
    by (rule py_sum_ratings)
  have l10: "length recent = 10" using assms(2,4) len by simp
  show ?thesis
    using assms(2) srt rs ps l10 assms(6)
    unfolding calculate_rating_trend_def previous_slice Let_def
    by (simp add: assms(4)[symmetric] assms(5)[symmetric])
qed


lemma key_review_of [simp]: "str_key (created_at (review_of t r)) = t"
  by (simp add: str_key_def created_at_def review_of_def get_or_def)

lemma rating_review_of [simp]: "overall_rating (review_of t r) = PInt r"
  by (simp add: overall_rating_def review_of_def get_or_def)

lemma is_str_review_of [simp]: "is_str (created_at (review_of t r))"
  by (simp add: is_str_def created_at_def review_of_def get_or_def)


lemma sorted_twenty_low:
  "rev (sort_key (\<lambda>r. str_key (created_at r)) (rev twenty_low_reviews)) = rev twenty_low_reviews"
  by (simp add: twenty_low_reviews_def)


text \<open>The comparison with 0.3 is a comparison of doubles. With the means 1.3 and 1.0 the
  exact difference is three tenths, which does not exceed three tenths; the difference of the
  doubles is \<open>0.30000000000000004\<close>, which exceeds the double \<open>0.3\<close>.\<close>

lemma trend_at_three_tenths:
  "calculate_rating_trend twenty_low_reviews = Inr ''improving''
   \<and> fsub (fl_frac 13 10) (fl_frac 10 10) = Float 1351079888211149 (- 52)
   \<and> fl_frac 3 10 = Float 5404319552844595 (- 54)"
proof -
  have h: "list_all (\<lambda>r. num_of (overall_rating r) \<noteq> None \<and> is_str (created_at r)) twenty_low_reviews"
    by (simp add: twenty_low_reviews_def)
  have l: "10 \<le> length twenty_low_reviews" by (simp add: twenty_low_reviews_def)
  note t = trend_value [OF h l refl refl refl refl]
  show ?thesis
    unfolding t sorted_twenty_low
    by (simp add: twenty_low_reviews_def rating_sum_def num_key_def float_eval)
qed






end
